theory Spec2Isabelle
  imports Main "HOL-Library.Word"
begin

unbundle bit_operations_syntax

section \<open>Machine integers\<close>

type_synonym u8 = "8 word"
type_synonym u16 = "16 word"
type_synonym u32 = "32 word"
type_synonym u64 = "64 word"

text \<open>
  C's \<open>int\<close> is 32 bits wide, two's complement.  \<open>int32\<close> values are kept as
  \<open>32 word\<close> and read with \<open>sint\<close>; \<open>int64_t\<close> values as \<open>64 word\<close>.
\<close>

type_synonym int32 = "32 word"
type_synonym int64 = "64 word"

text \<open>
  \<open>E1 << E2\<close> on an \<open>int\<close>.  A shift count of 32 or more is undefined in C; the
  model has no value there.  For a smaller count the result is the shifted bit pattern,
  truncated to 32 bits (the semantics GCC and Clang give and QEMU is built for).
\<close>

definition shl_int :: "int32 \<Rightarrow> nat \<Rightarrow> int32 option" where
  "shl_int x n = (if n < 32 then Some (push_bit n x) else None)"

text \<open>Network byte order, as \<open>cpu_to_be32\<close>, \<open>cpu_to_be64\<close> lay a value out in memory.\<close>

definition be32 :: "u32 \<Rightarrow> u8 list" where
  "be32 x = [ucast (drop_bit 24 x), ucast (drop_bit 16 x), ucast (drop_bit 8 x), ucast x]"

definition be64 :: "u64 \<Rightarrow> u8 list" where
  "be64 x = [ucast (drop_bit 56 x), ucast (drop_bit 48 x), ucast (drop_bit 40 x),
             ucast (drop_bit 32 x), ucast (drop_bit 24 x), ucast (drop_bit 16 x),
             ucast (drop_bit 8 x), ucast x]"

text \<open>\<open>be32_to_cpu\<close> of the four bytes a field occupies in memory.\<close>

fun be32_to_cpu :: "u8 list \<Rightarrow> u32" where
  "be32_to_cpu [a, b, c, d] =
     push_bit 24 (ucast a) OR push_bit 16 (ucast b) OR push_bit 8 (ucast c) OR ucast d"
| "be32_to_cpu _ = 0"

section \<open>The protocol (remote-port-proto.h)\<close>

definition RP_CMD_read :: u32 where "RP_CMD_read = 3"
definition RP_CMD_write :: u32 where "RP_CMD_write = 4"
definition RP_CMD_interrupt :: u32 where "RP_CMD_interrupt = 5"

definition RP_PKT_FLAGS_optional :: u32 where "RP_PKT_FLAGS_optional = push_bit 0 1"
definition RP_PKT_FLAGS_response :: u32 where "RP_PKT_FLAGS_response = push_bit 1 1"

text \<open>
  The structs are packed: \<open>sizeof (struct rp_pkt_hdr) = 20\<close>,
  \<open>sizeof (struct rp_pkt_busaccess) = 56\<close>, \<open>sizeof (struct rp_pkt_interrupt) = 41\<close>,
  and the union \<open>struct rp_pkt\<close> has the size of its largest member, 56.
\<close>

definition sizeof_rp_pkt_hdr :: nat where "sizeof_rp_pkt_hdr = 5 * 4"
definition sizeof_rp_pkt_busaccess :: nat where
  "sizeof_rp_pkt_busaccess = sizeof_rp_pkt_hdr + 3 * 8 + 3 * 4"
definition sizeof_rp_pkt_interrupt :: nat where
  "sizeof_rp_pkt_interrupt = sizeof_rp_pkt_hdr + 8 + 8 + 4 + 1"
definition sizeof_rp_pkt :: nat where
  "sizeof_rp_pkt = max sizeof_rp_pkt_busaccess sizeof_rp_pkt_interrupt"

text \<open>A decoded packet: the fields in host order, as the receive path hands them over.\<close>

record rp_pkt_hdr =
  hdr_cmd :: u32
  hdr_len :: u32
  hdr_id :: u32
  hdr_flags :: u32
  hdr_dev :: u32

record rp_pkt_busaccess =
  ba_hdr :: rp_pkt_hdr
  ba_timestamp :: u64
  ba_attributes :: u64
  ba_addr :: u64
  ba_len :: u32
  ba_width :: u32
  ba_stream_width :: u32

record rp_pkt_interrupt =
  irq_hdr :: rp_pkt_hdr
  irq_timestamp :: u64
  irq_vector :: u64
  irq_line :: u32
  irq_val :: u8

text \<open>
  A received bus-access packet in its buffer: the struct, and the bytes that follow it
  (what \<open>rp_busaccess_dataptr\<close>, \<open>pkt + 1\<close>, points at).
\<close>

record rp_dpkt =
  dp_busaccess :: rp_pkt_busaccess
  dp_data :: "u8 list"

definition rp_busaccess_dataptr :: "rp_dpkt \<Rightarrow> u8 list" where
  "rp_busaccess_dataptr p = dp_data p"

subsection \<open>Encoders\<close>

text \<open>
  Modelled from the spec: \<open>rp_encode_hdr\<close> is declared in remote-port-proto.h and defined
  in a file that is not part of the sources.  The header is 20 bytes,
  \<open>command, length, id, flags, device\<close>, each a 32-bit integer in network byte order.
\<close>

definition rp_encode_hdr :: "u32 \<Rightarrow> u32 \<Rightarrow> u32 \<Rightarrow> u32 \<Rightarrow> u32 \<Rightarrow> u8 list" where
  "rp_encode_hdr cmd ident dev len flags =
     be32 cmd @ be32 len @ be32 ident @ be32 flags @ be32 dev"

text \<open>
  Modelled from the spec: the bus-access payload is
  \<open>timestamp:i64, attributes:u64, address:u64, length:u32, beat_width:u32, stream_width:u32\<close>
  in network byte order.  The declared parameter \<open>attr\<close> is 32 bits wide.
\<close>

definition rp_encode_busaccess_common ::
  "int64 \<Rightarrow> u64 \<Rightarrow> u32 \<Rightarrow> u32 \<Rightarrow> u32 \<Rightarrow> u32 \<Rightarrow> u8 list" where
  "rp_encode_busaccess_common clk addr attr sz width stream_width =
     be64 clk @ be64 (ucast attr) @ be64 addr @ be32 sz @ be32 width @ be32 stream_width"

text \<open>
  Modelled from the spec: the four bus-access encoders, declared in remote-port-proto.h and
  defined elsewhere.  Each fills the struct and returns a length.  The header's length
  field is the exact number of bytes following the header: the payload, plus the data on
  writes and on read responses.  The returned length is the struct's size, except for a
  read response, where it includes the data: the memory slave asserts that
  \<open>rp_encode_read_resp\<close> returns \<open>sizeof (struct rp_pkt_busaccess) + len\<close> and
  \<open>rp_encode_write_resp\<close> returns \<open>sizeof (struct rp_pkt_busaccess)\<close>, and the memory
  master adds the data size to what \<open>rp_encode_write\<close> returns.
\<close>

definition rp_encode_read ::
  "u32 \<Rightarrow> u32 \<Rightarrow> int64 \<Rightarrow> u64 \<Rightarrow> u32 \<Rightarrow> u32 \<Rightarrow> u32 \<Rightarrow> u32 \<Rightarrow> u8 list \<times> nat" where
  "rp_encode_read ident dev clk addr attr sz width stream_width =
     (rp_encode_hdr RP_CMD_read ident dev
        (of_nat (sizeof_rp_pkt_busaccess - sizeof_rp_pkt_hdr)) 0
      @ rp_encode_busaccess_common clk addr attr sz width stream_width,
      sizeof_rp_pkt_busaccess)"

definition rp_encode_read_resp ::
  "u32 \<Rightarrow> u32 \<Rightarrow> int64 \<Rightarrow> u64 \<Rightarrow> u32 \<Rightarrow> u32 \<Rightarrow> u32 \<Rightarrow> u32 \<Rightarrow> u8 list \<times> nat" where
  "rp_encode_read_resp ident dev clk addr attr sz width stream_width =
     (rp_encode_hdr RP_CMD_read ident dev
        (of_nat (sizeof_rp_pkt_busaccess - sizeof_rp_pkt_hdr) + sz) RP_PKT_FLAGS_response
      @ rp_encode_busaccess_common clk addr attr sz width stream_width,
      sizeof_rp_pkt_busaccess + unat sz)"

definition rp_encode_write ::
  "u32 \<Rightarrow> u32 \<Rightarrow> int64 \<Rightarrow> u64 \<Rightarrow> u32 \<Rightarrow> u32 \<Rightarrow> u32 \<Rightarrow> u32 \<Rightarrow> u8 list \<times> nat" where
  "rp_encode_write ident dev clk addr attr sz width stream_width =
     (rp_encode_hdr RP_CMD_write ident dev
        (of_nat (sizeof_rp_pkt_busaccess - sizeof_rp_pkt_hdr) + sz) 0
      @ rp_encode_busaccess_common clk addr attr sz width stream_width,
      sizeof_rp_pkt_busaccess)"

definition rp_encode_write_resp ::
  "u32 \<Rightarrow> u32 \<Rightarrow> int64 \<Rightarrow> u64 \<Rightarrow> u32 \<Rightarrow> u32 \<Rightarrow> u32 \<Rightarrow> u32 \<Rightarrow> u8 list \<times> nat" where
  "rp_encode_write_resp ident dev clk addr attr sz width stream_width =
     (rp_encode_hdr RP_CMD_write ident dev
        (of_nat (sizeof_rp_pkt_busaccess - sizeof_rp_pkt_hdr)) RP_PKT_FLAGS_response
      @ rp_encode_busaccess_common clk addr attr sz width stream_width,
      sizeof_rp_pkt_busaccess)"

text \<open>
  Modelled from the spec: the interrupt encoder.  The payload is
  \<open>timestamp:i64, vector:u64, line:u32, value:u8\<close>.
\<close>

definition rp_encode_interrupt ::
  "u32 \<Rightarrow> u32 \<Rightarrow> int64 \<Rightarrow> u32 \<Rightarrow> u64 \<Rightarrow> u8 \<Rightarrow> u8 list \<times> nat" where
  "rp_encode_interrupt ident dev clk line vector val =
     (rp_encode_hdr RP_CMD_interrupt ident dev
        (of_nat (sizeof_rp_pkt_interrupt - sizeof_rp_pkt_hdr)) 0
      @ be64 clk @ be64 vector @ be32 line @ [val],
      sizeof_rp_pkt_interrupt)"

text \<open>The fields of an encoded packet, read back from its bytes.\<close>

definition wire_hdr_id :: "u8 list \<Rightarrow> u8 list" where
  "wire_hdr_id bs = take 4 (drop 8 bs)"

definition wire_hdr_len :: "u8 list \<Rightarrow> u8 list" where
  "wire_hdr_len bs = take 4 (drop 4 bs)"

definition wire_busaccess_len :: "u8 list \<Rightarrow> u8 list" where
  "wire_busaccess_len bs = take 4 (drop (sizeof_rp_pkt_hdr + 3 * 8) bs)"

section \<open>The remote port, as the devices use it\<close>

text \<open>
  Every function a device calls on its \<open>struct RemotePort\<close> is entered in a log,
  in program order; the encoders, which only fill a struct, are logged with the bytes
  they produced.
\<close>

datatype rp_call =
    C_rp_normalized_vmclk
  | C_rp_new_id
  | C_rp_encode "u8 list"
  | C_rp_rsp_mutex_lock
  | C_rp_write "u8 list"
  | C_rp_wait_resp
  | C_rp_dpkt_invalidate
  | C_rp_rsp_mutex_unlock
  | C_rp_sync_vmclock int64 int64
  | C_rp_restart_sync_timer
  | C_rp_leave_iothread

record RemotePort =
  vm_clock :: int64
  clk_base :: int64
  rp_current_id :: u32
  peer_clk :: int64
  since_sync :: u64
  calls :: "rp_call list"

definition called :: "rp_call \<Rightarrow> RemotePort \<Rightarrow> RemotePort" where
  "called c r = r\<lparr>calls := calls r @ [c]\<rparr>"

text \<open>
  Modelled from the spec: the functions of the remote-port core, which is not part of the
  sources.  The normalized clock is the current local clock minus the clock base; ids are
  allocated in increasing order; \<open>rp_write\<close> hands the first \<open>n\<close> bytes of a buffer to
  the transport; \<open>rp_wait_resp\<close> blocks until the peer's response, an input here, has
  been decoded; reconciling the clock advances the tracked peer clock to at least the
  peer's timestamp and never moves it back; restarting the sync timer resets the time
  accounted since the last synchronization.
\<close>

definition rp_normalized_vmclk :: "RemotePort \<Rightarrow> int64 \<times> RemotePort" where
  "rp_normalized_vmclk r = (vm_clock r - clk_base r, called C_rp_normalized_vmclk r)"

definition rp_new_id :: "RemotePort \<Rightarrow> u32 \<times> RemotePort" where
  "rp_new_id r =
     (rp_current_id r, called C_rp_new_id (r\<lparr>rp_current_id := rp_current_id r + 1\<rparr>))"

definition rp_rsp_mutex_lock :: "RemotePort \<Rightarrow> RemotePort" where
  "rp_rsp_mutex_lock r = called C_rp_rsp_mutex_lock r"

definition rp_rsp_mutex_unlock :: "RemotePort \<Rightarrow> RemotePort" where
  "rp_rsp_mutex_unlock r = called C_rp_rsp_mutex_unlock r"

definition rp_write :: "RemotePort \<Rightarrow> u8 list \<Rightarrow> nat \<Rightarrow> RemotePort" where
  "rp_write r buf n = called (C_rp_write (take n buf)) r"

definition rp_wait_resp :: "RemotePort \<Rightarrow> rp_dpkt \<Rightarrow> rp_dpkt \<times> RemotePort" where
  "rp_wait_resp r incoming = (incoming, called C_rp_wait_resp r)"

definition rp_dpkt_invalidate :: "RemotePort \<Rightarrow> RemotePort" where
  "rp_dpkt_invalidate r = called C_rp_dpkt_invalidate r"

definition rp_sync_vmclock :: "RemotePort \<Rightarrow> int64 \<Rightarrow> int64 \<Rightarrow> RemotePort" where
  "rp_sync_vmclock r lclk rclk =
     called (C_rp_sync_vmclock lclk rclk)
       (r\<lparr>peer_clk := (if word_sless (peer_clk r) rclk then rclk else peer_clk r)\<rparr>)"

definition rp_restart_sync_timer :: "RemotePort \<Rightarrow> RemotePort" where
  "rp_restart_sync_timer r = called C_rp_restart_sync_timer (r\<lparr>since_sync := 0\<rparr>)"

definition rp_leave_iothread :: "RemotePort \<Rightarrow> RemotePort" where
  "rp_leave_iothread r = called C_rp_leave_iothread r"

text \<open>Whether the response mutex is held after a log of calls.\<close>

definition mutex_after :: "bool \<Rightarrow> rp_call \<Rightarrow> bool" where
  "mutex_after held c =
     (case c of C_rp_rsp_mutex_lock \<Rightarrow> True | C_rp_rsp_mutex_unlock \<Rightarrow> False | _ \<Rightarrow> held)"

definition rsp_mutex_held :: "rp_call list \<Rightarrow> bool" where
  "rsp_mutex_held cs = foldl mutex_after False cs"

text \<open>Whether the \<open>k\<close>-th call of a log is made with the response mutex held.\<close>

definition under_mutex :: "rp_call list \<Rightarrow> nat \<Rightarrow> bool" where
  "under_mutex cs k = rsp_mutex_held (take k cs)"

section \<open>Errors\<close>

text \<open>
  A failed \<open>assert\<close> aborts the process.  Behaviour that C leaves undefined (a shift of
  an \<open>int\<close> by 32 bits or more, a read past the bytes of a packet, an index outside an
  array) has no result in the model either.
\<close>

datatype rp_error =
    Assert_rsp_id
  | Assert_size
  | Assert_width
  | Assert_stream_width
  | Assert_not_response
  | Assert_enclen
  | Undefined_shift
  | Read_past_data
  | Index_out_of_range

section \<open>The memory master (remote-port-memory-master.c)\<close>

record RemotePortMemoryMaster =
  mm_rp_dev :: u32
  mm_rp :: RemotePort

record RemotePortMap =
  map_offset :: u64

text \<open>
  The loop of \<open>rp_io_read\<close>: \<open>value |= data[i] << (i * 8)\<close>.  \<open>data[i]\<close> is a
  \<open>uint8_t\<close>, promoted to \<open>int\<close>; the shift is done in \<open>int\<close>; the \<open>int\<close> result is
  converted to \<open>uint64_t\<close>, which extends its sign.
\<close>

function rd_loop :: "u8 list \<Rightarrow> nat \<Rightarrow> nat \<Rightarrow> u64 \<Rightarrow> rp_error + u64" where
  "rd_loop data sz i v =
     (if i < sz then
        (if length data \<le> i then Inl Read_past_data
         else case shl_int (ucast (data ! i)) (i * 8) of
                None \<Rightarrow> Inl Undefined_shift
              | Some t \<Rightarrow> rd_loop data sz (i + 1) (v OR scast t))
      else Inr v)"
  by pat_completeness auto
termination
  by (relation "measure (\<lambda>(data, sz, i, v). sz - i)") auto

declare rd_loop.simps [simp del]

definition rp_io_read ::
  "RemotePortMemoryMaster \<Rightarrow> RemotePortMap \<Rightarrow> u64 \<Rightarrow> u32 \<Rightarrow> rp_dpkt
     \<Rightarrow> rp_error + (u64 \<times> RemotePortMemoryMaster)" where
  "rp_io_read s m addr sz incoming =
     (let (clk, r1) = rp_normalized_vmclk (mm_rp s);
          (ident, r2) = rp_new_id r1;
          (pkt, len) = rp_encode_read ident (mm_rp_dev s) clk (addr + map_offset m) 0 sz 0 sz;
          r3 = called (C_rp_encode pkt) r2;
          r4 = rp_rsp_mutex_lock r3;
          r5 = rp_write r4 pkt len;
          (rsp, r6) = rp_wait_resp r5 incoming
      in if hdr_id (ba_hdr (dp_busaccess rsp)) \<noteq> be32_to_cpu (wire_hdr_id pkt)
         then Inl Assert_rsp_id
         else case rd_loop (rp_busaccess_dataptr rsp) (unat sz) 0 0 of
                Inl e \<Rightarrow> Inl e
              | Inr v \<Rightarrow>
                  (let rclk = ba_timestamp (dp_busaccess rsp);
                       r7 = rp_dpkt_invalidate r6;
                       r8 = rp_rsp_mutex_unlock r7;
                       r9 = rp_sync_vmclock r8 clk rclk;
                       r10 = rp_restart_sync_timer r9;
                       r11 = rp_leave_iothread r10
                   in Inr (v, s\<lparr>mm_rp := r11\<rparr>)))"

text \<open>
  \<open>rp_io_write\<close>.  The loop \<open>pay.data[i] = value >> (i * 8)\<close> fills all eight bytes
  of \<open>pay.data\<close>, which lies right after the packed struct \<open>pay.pkt\<close>;
  \<open>rp_write\<close> is given the address of \<open>pay\<close> and \<open>len + size\<close>.
\<close>

definition pay_data :: "u64 \<Rightarrow> u8 list" where
  "pay_data v = map (\<lambda>i. ucast (drop_bit (i * 8) v)) [0..<8]"

definition rp_io_write ::
  "RemotePortMemoryMaster \<Rightarrow> RemotePortMap \<Rightarrow> u64 \<Rightarrow> u64 \<Rightarrow> u32 \<Rightarrow> rp_dpkt
     \<Rightarrow> rp_error + RemotePortMemoryMaster" where
  "rp_io_write s m addr v sz incoming =
     (let dat = pay_data v
      in if \<not> sz \<le> 8 then Inl Assert_size
         else
          (let (clk, r1) = rp_normalized_vmclk (mm_rp s);
               (ident, r2) = rp_new_id r1;
               (pkt, len) =
                  rp_encode_write ident (mm_rp_dev s) clk (addr + map_offset m) 0 sz 0 sz;
               r3 = called (C_rp_encode pkt) r2;
               r4 = rp_rsp_mutex_lock r3;
               r5 = rp_write r4 (pkt @ dat) (len + unat sz);
               (rsp, r6) = rp_wait_resp r5 incoming
           in if hdr_id (ba_hdr (dp_busaccess rsp)) \<noteq> be32_to_cpu (wire_hdr_id pkt)
              then Inl Assert_rsp_id
              else
               (let rclk = ba_timestamp (dp_busaccess rsp);
                    r7 = rp_dpkt_invalidate r6;
                    r8 = rp_rsp_mutex_unlock r7;
                    r9 = rp_sync_vmclock r8 clk rclk;
                    r10 = rp_restart_sync_timer r9;
                    r11 = rp_leave_iothread r10
                in Inr (s\<lparr>mm_rp := r11\<rparr>))))"

text \<open>Every buffer handed to \<open>rp_write\<close>, in order.\<close>

fun written :: "rp_call list \<Rightarrow> u8 list list" where
  "written [] = []"
| "written (C_rp_write bs # cs) = bs # written cs"
| "written (c # cs) = written cs"

text \<open>
  What the spec calls a little-endian value: byte \<open>i\<close> of the \<open>n\<close> bytes has weight
  \<open>2 ^ (8 * i)\<close>.  \<open>le_value\<close> assembles a number from its bytes, \<open>le_bytes\<close> lists the
  \<open>n\<close> least significant bytes of a number.
\<close>

fun le_value :: "u8 list \<Rightarrow> nat" where
  "le_value [] = 0"
| "le_value (d # ds) = unat d + 256 * le_value ds"

fun le_bytes :: "nat \<Rightarrow> nat \<Rightarrow> u8 list" where
  "le_bytes 0 v = []"
| "le_bytes (Suc n) v = of_nat (v mod 256) # le_bytes n (v div 256)"

section \<open>The clock synchronizer\<close>



section \<open>The GPIO device (remote-port-gpio.c)\<close>

text \<open>
  \<open>gpio_out\<close> is the array of output lines, \<open>g_new0 (qemu_irq, num_gpios)\<close>; the model
  keeps for each line the level it is driven to.
\<close>

record RemotePortGPIO =
  num_gpios :: u16
  gpio_out :: "int32 list"
  current_id :: u64
  gpio_rp_dev :: u32
  gpio_rp :: RemotePort

text \<open>
  \<open>rp_gpio_handler (opaque, irq, level)\<close>.  \<open>s->current_id++\<close> is a 64-bit counter
  passed as a 32-bit id; \<open>irq\<close> is passed as the 32-bit line, \<open>level\<close> as the 8-bit
  value, the vector is 0.
\<close>

definition rp_gpio_handler :: "RemotePortGPIO \<Rightarrow> int32 \<Rightarrow> int32 \<Rightarrow> RemotePortGPIO" where
  "rp_gpio_handler s irq level =
     (let (clk, r1) = rp_normalized_vmclk (gpio_rp s);
          ident = current_id s;
          s1 = s\<lparr>current_id := current_id s + 1\<rparr>;
          (pkt, len) = rp_encode_interrupt (ucast ident) (gpio_rp_dev s) clk irq 0 (ucast level);
          r2 = called (C_rp_encode pkt) r1;
          r3 = rp_write r2 pkt len
      in s1\<lparr>gpio_rp := r3\<rparr>)"

text \<open>
  Modelled from the spec: \<open>qemu_set_irq\<close> belongs to the host; it drives an output line
  to a level.  \<open>rp_gpio_interrupt\<close> indexes \<open>gpio_out\<close> with the packet's line, unchecked:
  an index outside the array is undefined in C.
\<close>

definition qemu_set_irq :: "int32 list \<Rightarrow> nat \<Rightarrow> int32 \<Rightarrow> int32 list" where
  "qemu_set_irq lines n level = lines[n := level]"

definition rp_gpio_interrupt ::
  "RemotePortGPIO \<Rightarrow> rp_pkt_interrupt \<Rightarrow> rp_error + RemotePortGPIO" where
  "rp_gpio_interrupt rpg pkt =
     (if unat (irq_line pkt) < length (gpio_out rpg)
      then Inr (rpg\<lparr>gpio_out :=
                  qemu_set_irq (gpio_out rpg) (unat (irq_line pkt)) (ucast (irq_val pkt))\<rparr>)
      else Inl Index_out_of_range)"

definition rp_gpio_realize :: "RemotePortGPIO \<Rightarrow> RemotePortGPIO" where
  "rp_gpio_realize s = s\<lparr>gpio_out := replicate (unat (num_gpios s)) 0\<rparr>"

section \<open>The memory slave (remote-port-memory-slave.c)\<close>

datatype DMADirection = DMA_DIRECTION_TO_DEVICE | DMA_DIRECTION_FROM_DEVICE

record RemotePortMemorySlave =
  ms_rp :: RemotePort
  ms_as :: "u64 \<Rightarrow> u8"

text \<open>
  Modelled from the spec: the host's address space is an external collaborator; here it
  is a byte-addressed memory.  \<open>dma_memory_rw\<close> towards the device reads \<open>len\<close> bytes
  starting at \<open>addr\<close>, from the device it stores them.
\<close>

definition dma_memory_read :: "(u64 \<Rightarrow> u8) \<Rightarrow> u64 \<Rightarrow> nat \<Rightarrow> u8 list" where
  "dma_memory_read mem addr n = map (\<lambda>i. mem (addr + of_nat i)) [0..<n]"

fun dma_memory_write :: "(u64 \<Rightarrow> u8) \<Rightarrow> u64 \<Rightarrow> u8 list \<Rightarrow> (u64 \<Rightarrow> u8)" where
  "dma_memory_write mem addr [] = mem"
| "dma_memory_write mem addr (b # bs) = dma_memory_write (mem(addr := b)) (addr + 1) bs"

text \<open>
  \<open>rp_cmd_rw\<close>.  For a read the response buffer is allocated with room for the data,
  which the memory access fills in right after the struct; for a write the data are the
  bytes that follow the request.  The three assertions come before any access.
\<close>

definition rp_cmd_rw ::
  "RemotePortMemorySlave \<Rightarrow> rp_dpkt \<Rightarrow> DMADirection \<Rightarrow> rp_error + RemotePortMemorySlave" where
  "rp_cmd_rw s pkt dir =
     (let ba = dp_busaccess pkt;
          pktlen = sizeof_rp_pkt_busaccess
                     + (if dir = DMA_DIRECTION_TO_DEVICE then unat (ba_len ba) else 0)
      in if ba_width ba \<noteq> 0 then Inl Assert_width
         else if ba_stream_width ba \<noteq> ba_len ba then Inl Assert_stream_width
         else if hdr_flags (ba_hdr ba) AND RP_PKT_FLAGS_response \<noteq> 0
           then Inl Assert_not_response
         else
           case (case dir of
                   DMA_DIRECTION_TO_DEVICE \<Rightarrow>
                     Inr (dma_memory_read (ms_as s) (ba_addr ba) (unat (ba_len ba)), ms_as s)
                 | DMA_DIRECTION_FROM_DEVICE \<Rightarrow>
                     (if length (dp_data pkt) < unat (ba_len ba) then Inl Read_past_data
                      else Inr ([], dma_memory_write (ms_as s) (ba_addr ba)
                                      (take (unat (ba_len ba)) (dp_data pkt))))) of
             Inl e \<Rightarrow> Inl e
           | Inr (rsp_data, mem) \<Rightarrow>
              (let delay = 0;
                   (rsp_pkt, enclen) =
                     (if dir = DMA_DIRECTION_FROM_DEVICE then rp_encode_write_resp
                      else rp_encode_read_resp)
                       (hdr_id (ba_hdr ba)) (hdr_dev (ba_hdr ba)) (ba_timestamp ba + delay)
                       (ba_addr ba) (ucast (ba_attributes ba)) (ba_len ba) (ba_width ba)
                       (ba_stream_width ba);
                   r1 = called (C_rp_encode rsp_pkt) (ms_rp s)
               in if enclen \<noteq> pktlen then Inl Assert_enclen
                  else Inr (s\<lparr>ms_rp := rp_write r1 (rsp_pkt @ rsp_data) pktlen,
                              ms_as := mem\<rparr>)))"

definition rp_memory_master_write ::
  "RemotePortMemorySlave \<Rightarrow> rp_dpkt \<Rightarrow> rp_error + RemotePortMemorySlave" where
  "rp_memory_master_write s pkt = rp_cmd_rw s pkt DMA_DIRECTION_FROM_DEVICE"

definition rp_memory_master_read ::
  "RemotePortMemorySlave \<Rightarrow> rp_dpkt \<Rightarrow> rp_error + RemotePortMemorySlave" where
  "rp_memory_master_read s pkt = rp_cmd_rw s pkt DMA_DIRECTION_TO_DEVICE"

section \<open>Concrete scenarios\<close>

text \<open>
  Scenario A of the spec: a read with id 1 on device 2 at clock 100, address \<open>0x1000\<close>,
  size 4, answered with the data bytes \<open>AA BB CC DD\<close>.
\<close>

definition rp_A :: RemotePort where
  "rp_A = \<lparr>vm_clock = 100, clk_base = 0, rp_current_id = 1, peer_clk = 0, since_sync = 7,
           calls = []\<rparr>"

definition master_A :: RemotePortMemoryMaster where
  "master_A = \<lparr>mm_rp_dev = 2, mm_rp = rp_A\<rparr>"

definition map_A :: RemotePortMap where
  "map_A = \<lparr>map_offset = 0\<rparr>"

definition rsp_A :: rp_dpkt where
  "rsp_A = \<lparr>dp_busaccess =
              \<lparr>ba_hdr = \<lparr>hdr_cmd = 3, hdr_len = 40, hdr_id = 1, hdr_flags = 2, hdr_dev = 2\<rparr>,
               ba_timestamp = 100, ba_attributes = 0, ba_addr = 0x1000, ba_len = 4,
               ba_width = 0, ba_stream_width = 4\<rparr>,
            dp_data = [0xAA, 0xBB, 0xCC, 0xDD]\<rparr>"

text \<open>Scenario B: a write of the two bytes of \<open>0x1234\<close> to \<open>0x2000\<close>, and its response.\<close>

definition rsp_B :: rp_dpkt where
  "rsp_B = \<lparr>dp_busaccess =
              \<lparr>ba_hdr = \<lparr>hdr_cmd = 4, hdr_len = 36, hdr_id = 1, hdr_flags = 2, hdr_dev = 2\<rparr>,
               ba_timestamp = 120, ba_attributes = 0, ba_addr = 0x2000, ba_len = 2,
               ba_width = 0, ba_stream_width = 2\<rparr>,
            dp_data = []\<rparr>"

text \<open>A read request and a write request as the memory slave receives them.\<close>

definition req_read :: rp_dpkt where
  "req_read = \<lparr>dp_busaccess =
              \<lparr>ba_hdr = \<lparr>hdr_cmd = 3, hdr_len = 36, hdr_id = 9, hdr_flags = 0, hdr_dev = 2\<rparr>,
               ba_timestamp = 100, ba_attributes = 0, ba_addr = 0x1000, ba_len = 4,
               ba_width = 0, ba_stream_width = 4\<rparr>,
            dp_data = []\<rparr>"

definition req_write :: rp_dpkt where
  "req_write = \<lparr>dp_busaccess =
              \<lparr>ba_hdr = \<lparr>hdr_cmd = 4, hdr_len = 38, hdr_id = 9, hdr_flags = 0, hdr_dev = 2\<rparr>,
               ba_timestamp = 100, ba_attributes = 0, ba_addr = 0x2000, ba_len = 2,
               ba_width = 0, ba_stream_width = 2\<rparr>,
            dp_data = [0x34, 0x12]\<rparr>"

definition slave_A :: RemotePortMemorySlave where
  "slave_A = \<lparr>ms_rp = rp_A, ms_as = (\<lambda>a. ucast a)\<rparr>"

definition gpio_A :: RemotePortGPIO where
  "gpio_A = rp_gpio_realize
     \<lparr>num_gpios = 16, gpio_out = [], current_id = 5, gpio_rp_dev = 3, gpio_rp = rp_A\<rparr>"

definition irq_A :: rp_pkt_interrupt where
  "irq_A = \<lparr>irq_hdr = \<lparr>hdr_cmd = 5, hdr_len = 21, hdr_id = 4, hdr_flags = 0, hdr_dev = 3\<rparr>,
            irq_timestamp = 100, irq_vector = 0, irq_line = 3, irq_val = 1\<rparr>"

text \<open>A response that carries another id than the request of scenario A.\<close>

definition rsp_stale :: rp_dpkt where
  "rsp_stale = \<lparr>dp_busaccess =
              \<lparr>ba_hdr = \<lparr>hdr_cmd = 3, hdr_len = 40, hdr_id = 7, hdr_flags = 2, hdr_dev = 2\<rparr>,
               ba_timestamp = 90, ba_attributes = 0, ba_addr = 0x1000, ba_len = 4,
               ba_width = 0, ba_stream_width = 4\<rparr>,
            dp_data = [0x11, 0x22, 0x33, 0x44]\<rparr>"

section \<open>The mutex discipline\<close>

text \<open>
  The discipline in the words of the spec: the mutex is held for the full cycle, from
  encoding and sending the request to consuming the response and reconciling the clocks.
\<close>

fun in_send_wait_cycle :: "rp_call \<Rightarrow> bool" where
  "in_send_wait_cycle (C_rp_encode pkt) = True"
| "in_send_wait_cycle (C_rp_write bs) = True"
| "in_send_wait_cycle C_rp_wait_resp = True"
| "in_send_wait_cycle C_rp_dpkt_invalidate = True"
| "in_send_wait_cycle (C_rp_sync_vmclock lclk rclk) = True"
| "in_send_wait_cycle c = False"

definition mutex_held_for_cycle :: "rp_call list \<Rightarrow> bool" where
  "mutex_held_for_cycle cs =
     (\<forall>k<length cs. in_send_wait_cycle (cs ! k) \<longrightarrow> under_mutex cs k)"

text \<open>The calls a device has made between two states of its remote port.\<close>

definition calls_since :: "RemotePort \<Rightarrow> RemotePort \<Rightarrow> rp_call list" where
  "calls_since r r' = drop (length (calls r)) (calls r')"

section \<open>Encoding facts\<close>

lemma be32_to_cpu_be32: "be32_to_cpu (be32 x) = x"
proof (rule bit_word_eqI)
  fix n
  assume n: "n < LENGTH(32)"
  consider "n < 8" | "8 \<le> n" "n < 16" | "16 \<le> n" "n < 24" | "24 \<le> n" "n < 32"
    using n by fastforce
  then show "bit (be32_to_cpu (be32 x)) n = bit x n"
    by cases (auto simp: be32_def bit_simps)
qed

lemma length_be32 [simp]: "length (be32 x) = 4"
  by (simp add: be32_def)

lemma length_be64 [simp]: "length (be64 x) = 8"
  by (simp add: be64_def)

lemma length_rp_encode_hdr [simp]: "length (rp_encode_hdr c i d l f) = 20"
  by (simp add: rp_encode_hdr_def)

lemma length_busaccess_common [simp]:
  "length (rp_encode_busaccess_common clk a at s w sw) = 36"
  by (simp add: rp_encode_busaccess_common_def)

lemma wire_hdr_id_hdr: "be32_to_cpu (wire_hdr_id (rp_encode_hdr c i d l f @ rest)) = i"
  by (simp add: wire_hdr_id_def rp_encode_hdr_def be32_to_cpu_be32)

lemma wire_busaccess_len_enc:
  "be32_to_cpu (wire_busaccess_len (rp_encode_hdr c i d l f
      @ rp_encode_busaccess_common clk a at s w sw)) = s"
  by (simp add: wire_busaccess_len_def sizeof_rp_pkt_hdr_def rp_encode_busaccess_common_def
        be32_to_cpu_be32)

lemmas rp_core_defs =
  rp_normalized_vmclk_def rp_new_id_def rp_rsp_mutex_lock_def rp_write_def rp_wait_resp_def
  rp_dpkt_invalidate_def rp_rsp_mutex_unlock_def rp_sync_vmclock_def
  rp_restart_sync_timer_def rp_leave_iothread_def called_def

section \<open>The memory master, step by step\<close>

text \<open>
  Both operations written out: which assertion can fail, and the state of the remote port
  when they return.
\<close>

lemma rp_io_read_unfold:
  "rp_io_read s m addr sz rsp =
     (if hdr_id (ba_hdr (dp_busaccess rsp)) \<noteq> rp_current_id (mm_rp s) then Inl Assert_rsp_id
      else case rd_loop (dp_data rsp) (unat sz) 0 0 of
             Inl e \<Rightarrow> Inl e
           | Inr v \<Rightarrow> Inr (v, s\<lparr>mm_rp := (mm_rp s)
               \<lparr>rp_current_id := rp_current_id (mm_rp s) + 1,
                peer_clk := (if word_sless (peer_clk (mm_rp s)) (ba_timestamp (dp_busaccess rsp))
                             then ba_timestamp (dp_busaccess rsp) else peer_clk (mm_rp s)),
                since_sync := 0,
                calls := calls (mm_rp s) @
                  [C_rp_normalized_vmclk, C_rp_new_id,
                   C_rp_encode (fst (rp_encode_read (rp_current_id (mm_rp s)) (mm_rp_dev s)
                      (vm_clock (mm_rp s) - clk_base (mm_rp s)) (addr + map_offset m) 0 sz 0 sz)),
                   C_rp_rsp_mutex_lock,
                   C_rp_write (fst (rp_encode_read (rp_current_id (mm_rp s)) (mm_rp_dev s)
                      (vm_clock (mm_rp s) - clk_base (mm_rp s)) (addr + map_offset m) 0 sz 0 sz)),
                   C_rp_wait_resp, C_rp_dpkt_invalidate, C_rp_rsp_mutex_unlock,
                   C_rp_sync_vmclock (vm_clock (mm_rp s) - clk_base (mm_rp s))
                      (ba_timestamp (dp_busaccess rsp)),
                   C_rp_restart_sync_timer, C_rp_leave_iothread]\<rparr>\<rparr>))"
  by (simp add: rp_io_read_def rp_core_defs rp_encode_read_def
        wire_hdr_id_hdr rp_busaccess_dataptr_def
        sizeof_rp_pkt_busaccess_def sizeof_rp_pkt_hdr_def Let_def
        split: sum.splits)

lemma rp_io_write_unfold:
  "rp_io_write s m addr v sz rsp =
     (if \<not> sz \<le> 8 then Inl Assert_size
      else if hdr_id (ba_hdr (dp_busaccess rsp)) \<noteq> rp_current_id (mm_rp s)
        then Inl Assert_rsp_id
      else Inr (s\<lparr>mm_rp := (mm_rp s)
               \<lparr>rp_current_id := rp_current_id (mm_rp s) + 1,
                peer_clk := (if word_sless (peer_clk (mm_rp s)) (ba_timestamp (dp_busaccess rsp))
                             then ba_timestamp (dp_busaccess rsp) else peer_clk (mm_rp s)),
                since_sync := 0,
                calls := calls (mm_rp s) @
                  [C_rp_normalized_vmclk, C_rp_new_id,
                   C_rp_encode (fst (rp_encode_write (rp_current_id (mm_rp s)) (mm_rp_dev s)
                      (vm_clock (mm_rp s) - clk_base (mm_rp s)) (addr + map_offset m) 0 sz 0 sz)),
                   C_rp_rsp_mutex_lock,
                   C_rp_write (fst (rp_encode_write (rp_current_id (mm_rp s)) (mm_rp_dev s)
                      (vm_clock (mm_rp s) - clk_base (mm_rp s)) (addr + map_offset m) 0 sz 0 sz)
                      @ take (unat sz) (pay_data v)),
                   C_rp_wait_resp, C_rp_dpkt_invalidate, C_rp_rsp_mutex_unlock,
                   C_rp_sync_vmclock (vm_clock (mm_rp s) - clk_base (mm_rp s))
                      (ba_timestamp (dp_busaccess rsp)),
                   C_rp_restart_sync_timer, C_rp_leave_iothread]\<rparr>\<rparr>))"
  by (simp add: rp_io_write_def rp_core_defs rp_encode_write_def wire_hdr_id_hdr
        sizeof_rp_pkt_busaccess_def sizeof_rp_pkt_hdr_def Let_def)

lemma rd_loop_scenario_A: "rd_loop [0xAA, 0xBB, 0xCC, 0xDD] 4 0 0 = Inr 0xFFFFFFFFDDCCBBAA"
  by (simp add: rd_loop.simps shl_int_def)

section \<open>Reads: the value returned\<close>

text \<open>
  What the loop of \<open>rp_io_read\<close> computes from data of at least \<open>sz\<close> bytes: the
  little-endian value of the first \<open>sz\<close> bytes for up to three bytes; for four bytes
  the same value with the upper 32 bits set when bit 7 of the fourth byte is set; nothing
  defined for more than four bytes, where the shift count reaches 32.
\<close>

lemma of_nat_le_value_Cons:
  "(of_nat (le_value (d # ds)) :: u64) = ucast d OR push_bit 8 (of_nat (le_value ds))"
proof -
  have "(ucast d :: u64) AND push_bit 8 (of_nat (le_value ds)) = 0"
    by (rule bit_word_eqI) (auto simp: bit_simps dest: bit_imp_le_length)
  then have "(ucast d :: u64) + push_bit 8 (of_nat (le_value ds)) =
      ucast d OR push_bit 8 (of_nat (le_value ds))"
    by (rule disjunctive_add_eq_or)
  then show ?thesis
    by (simp add: push_bit_eq_mult mult.commute)
qed

lemma byte_bit_high: "8 \<le> n \<Longrightarrow> \<not> bit (x :: u8) n"
  by (auto dest: bit_imp_le_length)

lemma rd_loop_too_wide:
  assumes "4 < sz" "sz \<le> length data"
  shows "rd_loop data sz 0 0 = Inl Undefined_shift"
  using assms by (auto simp: rd_loop.simps shl_int_def)


lemma rd_loop_3:
  "rd_loop (a # b # c # rest) 3 0 0 = Inr (of_nat (le_value [a, b, c]))"
proof -
  have "rd_loop (a # b # c # rest) 3 0 0 =
      Inr (scast (ucast a :: int32) OR scast (push_bit 8 (ucast b :: int32))
           OR scast (push_bit 16 (ucast c :: int32)))"
    by (simp add: rd_loop.simps shl_int_def or.assoc)
  also have "scast (ucast a :: int32) OR scast (push_bit 8 (ucast b :: int32))
           OR scast (push_bit 16 (ucast c :: int32)) = (of_nat (le_value [a, b, c]) :: u64)"
    unfolding of_nat_le_value_Cons
  proof (rule bit_word_eqI)
    fix n
    assume "n < LENGTH(64)"
    consider "n < 8" | "8 \<le> n" "n < 16" | "16 \<le> n" "n < 24" | "24 \<le> n"
      by fastforce
    then show "bit (scast (ucast a :: int32) OR scast (push_bit 8 (ucast b :: int32))
           OR scast (push_bit 16 (ucast c :: int32)) :: u64) n =
        bit (ucast a OR push_bit 8 (ucast b OR push_bit 8 (ucast c
           OR push_bit 8 (word_of_nat (le_value [])))) :: u64) n"
      by cases (auto simp: bit_simps min_def byte_bit_high)
  qed
  finally show ?thesis .
qed


lemma rd_loop_1: "rd_loop (a # rest) 1 0 0 = Inr (of_nat (le_value [a]))"
proof -
  have "rd_loop (a # rest) 1 0 0 = Inr (scast (ucast a :: int32))"
    by (simp add: rd_loop.simps shl_int_def)
  also have "scast (ucast a :: int32) = (of_nat (le_value [a]) :: u64)"
    unfolding of_nat_le_value_Cons
    by (rule bit_word_eqI) (auto simp: bit_simps min_def byte_bit_high)
  finally show ?thesis .
qed

lemma rd_loop_2: "rd_loop (a # b # rest) 2 0 0 = Inr (of_nat (le_value [a, b]))"
proof -
  have "rd_loop (a # b # rest) 2 0 0 =
      Inr (scast (ucast a :: int32) OR scast (push_bit 8 (ucast b :: int32)))"
    by (simp add: rd_loop.simps shl_int_def)
  also have "scast (ucast a :: int32) OR scast (push_bit 8 (ucast b :: int32)) =
      (of_nat (le_value [a, b]) :: u64)"
    unfolding of_nat_le_value_Cons
  proof (rule bit_word_eqI)
    fix n
    assume "n < LENGTH(64)"
    consider "n < 8" | "8 \<le> n" "n < 16" | "16 \<le> n"
      by fastforce
    then show "bit (scast (ucast a :: int32) OR scast (push_bit 8 (ucast b :: int32)) :: u64) n =
        bit (ucast a OR push_bit 8 (ucast b OR push_bit 8 (word_of_nat (le_value []))) :: u64) n"
      by cases (auto simp: bit_simps min_def byte_bit_high)
  qed
  finally show ?thesis .
qed

lemma rd_loop_4:
  "rd_loop (a # b # c # d # rest) 4 0 0 =
     Inr (of_nat (le_value [a, b, c, d]) OR (if bit d 7 then NOT (mask 32) else 0))"
proof -
  have "rd_loop (a # b # c # d # rest) 4 0 0 =
      Inr (scast (ucast a :: int32) OR scast (push_bit 8 (ucast b :: int32))
           OR scast (push_bit 16 (ucast c :: int32)) OR scast (push_bit 24 (ucast d :: int32)))"
    by (simp add: rd_loop.simps shl_int_def or.assoc)
  also have "scast (ucast a :: int32) OR scast (push_bit 8 (ucast b :: int32))
           OR scast (push_bit 16 (ucast c :: int32)) OR scast (push_bit 24 (ucast d :: int32)) =
       (of_nat (le_value [a, b, c, d]) OR (if bit d 7 then NOT (mask 32) else 0) :: u64)"
    unfolding of_nat_le_value_Cons
  proof (rule bit_word_eqI)
    fix n
    assume "n < LENGTH(64)"
    consider "n < 8" | "8 \<le> n" "n < 16" | "16 \<le> n" "n < 24" | "24 \<le> n" "n < 31"
      | "31 \<le> n" "n < 32" | "32 \<le> n"
      by fastforce
    then show "bit (scast (ucast a :: int32) OR scast (push_bit 8 (ucast b :: int32))
           OR scast (push_bit 16 (ucast c :: int32))
           OR scast (push_bit 24 (ucast d :: int32)) :: u64) n =
        bit ((ucast a OR push_bit 8 (ucast b OR push_bit 8 (ucast c
           OR push_bit 8 (ucast d OR push_bit 8 (word_of_nat (le_value []))))))
           OR (if bit d 7 then NOT (mask 32) else 0) :: u64) n"
    proof cases
      case 5
      then have "n = 31"
        by simp
      then show ?thesis
        by (simp add: bit_simps min_def byte_bit_high)
    qed (auto simp: bit_simps min_def byte_bit_high)
  qed
  finally show ?thesis .
qed

lemma not_mask_32: "(NOT (mask 32) :: u64) = 0xFFFFFFFF00000000"
  by (simp add: mask_eq_exp_minus_1)


lemma rd_loop_value:
  assumes len: "sz \<le> length data"
  shows "rd_loop data sz 0 0 =
     (if sz \<le> 3 then Inr (of_nat (le_value (take sz data)))
      else if sz = 4
        then Inr (of_nat (le_value (take sz data))
                  OR (if bit (data ! 3) 7 then 0xFFFFFFFF00000000 else 0))
      else Inl Undefined_shift)"
proof -
  consider "sz = 0" | "sz = 1" | "sz = 2" | "sz = 3" | "sz = 4" | "4 < sz"
    by fastforce
  then show ?thesis
  proof cases
    case 1
    then show ?thesis
      by (simp add: rd_loop.simps)
  next
    case 2
    with len obtain a rest where d: "data = a # rest"
      by (cases data) auto
    have "take 1 (a # rest) = [a]"
      by simp
    then show ?thesis
      unfolding 2 d using rd_loop_1 [of a rest] by simp
  next
    case 3
    with len obtain a b rest where d: "data = a # b # rest"
      by (cases data; cases "tl data") auto
    have "take 2 (a # b # rest) = [a, b]"
      by simp
    then show ?thesis
      unfolding 3 d using rd_loop_2 [of a b rest] by simp
  next
    case 4
    with len obtain a b c rest where d: "data = a # b # c # rest"
      by (cases data; cases "tl data"; cases "tl (tl data)") auto
    have "take 3 (a # b # c # rest) = [a, b, c]"
      by simp
    then show ?thesis
      unfolding 4 d using rd_loop_3 [of a b c rest] by simp
  next
    case 5
    with len obtain a b c d rest where dt: "data = a # b # c # d # rest"
      by (cases data; cases "tl data"; cases "tl (tl data)"; cases "tl (tl (tl data))") auto
    have "take 4 (a # b # c # d # rest) = [a, b, c, d]" "(a # b # c # d # rest) ! 3 = d"
      by simp_all
    then show ?thesis
      unfolding 5 dt using rd_loop_4 [of a b c d rest] by (simp add: not_mask_32)
  next
    case 6
    with len show ?thesis
      by (simp add: rd_loop_too_wide)
  qed
qed

lemma rp_io_read_value:
  assumes "hdr_id (ba_hdr (dp_busaccess rsp)) = rp_current_id (mm_rp s)"
    and "unat sz \<le> length (dp_data rsp)"
  shows "map_sum id fst (rp_io_read s m addr sz rsp) =
     (if unat sz \<le> 3 then Inr (of_nat (le_value (take (unat sz) (dp_data rsp))))
      else if unat sz = 4
        then Inr (of_nat (le_value (take (unat sz) (dp_data rsp)))
                  OR (if bit (dp_data rsp ! 3) 7 then 0xFFFFFFFF00000000 else 0))
      else Inl Undefined_shift)"
proof -
  have "map_sum id fst (rp_io_read s m addr sz rsp) = rd_loop (dp_data rsp) (unat sz) 0 0"
    using assms(1) by (simp add: rp_io_read_unfold split: sum.splits)
  then show ?thesis
    using rd_loop_value [OF assms(2)] by simp
qed


text \<open>
  C1.  The claim: a read returns the little-endian value of the response's data bytes, and
  the four bytes \<open>AA BB CC DD\<close> give exactly \<open>0xDDCCBBAA\<close>.  The code computes
  \<open>data[i] << (i * 8)\<close> in \<open>int\<close>: with bit 7 of the fourth byte set, the shifted
  value is a negative \<open>int\<close>, and converting it to the 64-bit result sets the upper 32
  bits.  Scenario A returns \<open>0xFFFFFFFFDDCCBBAA\<close>, while the little-endian value of
  its data is \<open>0xDDCCBBAA\<close>.  (\<open>rp_io_read_value\<close> above gives the result for every
  size.)
\<close>

theorem rp_io_read_scenario_A_sign_extended:
  "map_sum id fst (rp_io_read master_A map_A 0x1000 4 rsp_A) = Inr 0xFFFFFFFFDDCCBBAA
   \<and> le_value (dp_data rsp_A) = 0xDDCCBBAA"
  by (simp add: rp_io_read_unfold master_A_def rp_A_def rsp_A_def rd_loop_scenario_A)

section \<open>Response correlation\<close>

text \<open>
  C2.  The id of the outstanding request is the one \<open>rp_new_id\<close> hands out, the current id
  of the remote port.  A response with another id makes a read fail at the assertion,
  whatever its data; a write of at most 8 bytes fails at the same assertion (a larger
  write fails earlier, at \<open>assert (size <= 8)\<close>, before anything is sent).  With the
  matching id the assertion passes: a read goes on to assemble its value from the data of
  this response, and a write of at most 8 bytes completes.
\<close>

theorem response_id_correlation:
  "(hdr_id (ba_hdr (dp_busaccess rsp)) \<noteq> rp_current_id (mm_rp s) \<longrightarrow>
      rp_io_read s m addr sz rsp = Inl Assert_rsp_id
      \<and> (sz \<le> 8 \<longrightarrow> rp_io_write s m addr v sz rsp = Inl Assert_rsp_id)
      \<and> isl (rp_io_write s m addr v sz rsp))
   \<and> (hdr_id (ba_hdr (dp_busaccess rsp)) = rp_current_id (mm_rp s) \<longrightarrow>
      map_sum id fst (rp_io_read s m addr sz rsp) = rd_loop (dp_data rsp) (unat sz) 0 0
      \<and> rp_io_write s m addr v sz rsp \<noteq> Inl Assert_rsp_id
      \<and> (sz \<le> 8 \<longrightarrow> \<not> isl (rp_io_write s m addr v sz rsp)))"
  by (auto simp add: rp_io_read_unfold rp_io_write_unfold split: sum.splits)

theorem response_id_correlation_witness:
  "rp_io_read master_A map_A 0x1000 2 rsp_stale = Inl Assert_rsp_id
   \<and> rp_io_write master_A map_A 0x2000 0x1234 2 rsp_stale = Inl Assert_rsp_id
   \<and> map_sum id fst (rp_io_read master_A map_A 0x1000 2 rsp_A) = Inr 0xBBAA
   \<and> \<not> isl (rp_io_write master_A map_A 0x2000 0x1234 2 rsp_B)"
proof -
  have stale: "hdr_id (ba_hdr (dp_busaccess rsp_stale)) \<noteq> rp_current_id (mm_rp master_A)"
    by (simp add: rsp_stale_def master_A_def rp_A_def)
  have match_A: "hdr_id (ba_hdr (dp_busaccess rsp_A)) = rp_current_id (mm_rp master_A)"
    by (simp add: rsp_A_def master_A_def rp_A_def)
  have match_B: "hdr_id (ba_hdr (dp_busaccess rsp_B)) = rp_current_id (mm_rp master_A)"
    by (simp add: rsp_B_def master_A_def rp_A_def)
  have le: "(2 :: u32) \<le> 8"
    by simp
  have rd: "rd_loop (dp_data rsp_A) (unat (2 :: u32)) 0 0 = Inr 0xBBAA"
    by (simp add: rsp_A_def rd_loop.simps shl_int_def)
  from response_id_correlation [where rsp = rsp_stale and s = master_A and m = map_A and addr = "0x1000"
      and sz = 2 and v = "0x1234"]
    stale
  have a: "rp_io_read master_A map_A 0x1000 2 rsp_stale = Inl Assert_rsp_id"
    by blast
  from response_id_correlation [where rsp = rsp_stale and s = master_A and m = map_A and addr = "0x2000"
      and sz = 2 and v = "0x1234"]
    stale le
  have b: "rp_io_write master_A map_A 0x2000 0x1234 2 rsp_stale = Inl Assert_rsp_id"
    by blast
  from response_id_correlation [where rsp = rsp_A and s = master_A and m = map_A and addr = "0x1000"
      and sz = 2 and v = "0x1234"]
    match_A rd
  have c: "map_sum id fst (rp_io_read master_A map_A 0x1000 2 rsp_A) = Inr 0xBBAA"
    by simp
  from response_id_correlation [where rsp = rsp_B and s = master_A and m = map_A and addr = "0x2000"
      and sz = 2 and v = "0x1234"]
    match_B le
  have d: "\<not> isl (rp_io_write master_A map_A 0x2000 0x1234 2 rsp_B)"
    by blast
  from a b c d show ?thesis
    by blast
qed

section \<open>Little-endian bytes\<close>

lemma written_append: "written (xs @ ys) = written xs @ written ys"
  by (induction xs rule: written.induct) simp_all

lemma le_bytes_map: "le_bytes n x = map (\<lambda>i. of_nat (x div 256 ^ i)) [0..<n]"
proof (induction n arbitrary: x)
  case 0
  show ?case by simp
next
  case (Suc n)
  have "map (\<lambda>i. (of_nat (x div 256 ^ i) :: u8)) [0..<Suc n] =
        of_nat x # map (\<lambda>i. of_nat (x div 256 ^ Suc i)) [0..<n]"
    by (simp add: upt_conv_Cons map_Suc_upt [symmetric] del: upt_Suc)
  moreover have "(of_nat (x mod 256) :: u8) = of_nat x"
    by (simp add: word_of_nat_eq_iff take_bit_eq_mod)
  ultimately show ?case
    using Suc.IH [of "x div 256"] by (simp add: div_mult2_eq del: upt_Suc)
qed

lemma pay_byte: "(ucast (drop_bit (i * 8) (v :: u64)) :: u8) = of_nat (unat v div 256 ^ i)"
proof -
  have "(2 :: nat) ^ (i * 8) = (2 ^ 8) ^ i"
    by (metis power_mult mult.commute)
  then have "(256 :: nat) ^ i = 2 ^ (i * 8)"
    by simp
  then have "unat (drop_bit (i * 8) v) = unat v div 256 ^ i"
    unfolding unat_drop_bit_eq by (simp add: drop_bit_eq_div)
  then show ?thesis
    by (metis of_nat_unat)
qed

lemma take_pay_data: "n \<le> 8 \<Longrightarrow> take n (pay_data v) = le_bytes n (unat v)"
  by (simp add: pay_data_def le_bytes_map pay_byte take_map del: upt_Suc)

lemma length_le_bytes [simp]: "length (le_bytes n x) = n"
  by (induction n arbitrary: x) simp_all

lemma le_value_le_bytes: "le_value (le_bytes n x) = x mod 256 ^ n"
proof (induction n arbitrary: x)
  case 0
  show ?case by simp
next
  case (Suc n)
  have "unat (of_nat (x mod 256) :: u8) = x mod 256"
    by (simp add: unat_of_nat)
  then show ?case
    using Suc.IH [of "x div 256"] by (simp add: mod_mult2_eq)
qed


section \<open>The calls of the scenarios\<close>

lemma read_A_calls:
  "calls (mm_rp (snd (projr (rp_io_read master_A map_A 0x1000 4 rsp_A)))) =
     [C_rp_normalized_vmclk, C_rp_new_id,
      C_rp_encode (fst (rp_encode_read 1 2 100 0x1000 0 4 0 4)),
      C_rp_rsp_mutex_lock,
      C_rp_write (fst (rp_encode_read 1 2 100 0x1000 0 4 0 4)),
      C_rp_wait_resp, C_rp_dpkt_invalidate, C_rp_rsp_mutex_unlock,
      C_rp_sync_vmclock 100 100, C_rp_restart_sync_timer, C_rp_leave_iothread]"
  by (simp add: rp_io_read_unfold master_A_def map_A_def rp_A_def rsp_A_def rd_loop_scenario_A)

lemma calls_since_append [simp]: "calls_since r (r'\<lparr>calls := calls r @ cs\<rparr>) = cs"
  by (simp add: calls_since_def)

lemma under_mutex_bus_access:
  "map (under_mutex
     [C_rp_normalized_vmclk, C_rp_new_id, C_rp_encode pkt, C_rp_rsp_mutex_lock,
      C_rp_write bs, C_rp_wait_resp, C_rp_dpkt_invalidate, C_rp_rsp_mutex_unlock,
      C_rp_sync_vmclock clk rclk, C_rp_restart_sync_timer, C_rp_leave_iothread])
     [0, 1, 2, 3, 4, 5, 6, 7, 8, 9, 10] =
   [False, False, False, False, True, True, True, True, False, False, False]"
  by (simp add: under_mutex_def rsp_mutex_held_def mutex_after_def)

lemma read_A2_result:
  "rp_io_read master_A map_A 0x1000 2 rsp_A =
     Inr (0xBBAA, snd (projr (rp_io_read master_A map_A 0x1000 2 rsp_A)))"
  by (simp add: rp_io_read_unfold master_A_def rp_A_def rsp_A_def rd_loop.simps shl_int_def)

lemma write_B_result:
  "rp_io_write master_A map_A 0x2000 0x1234 2 rsp_B =
     Inr (projr (rp_io_write master_A map_A 0x2000 0x1234 2 rsp_B))"
  by (simp add: rp_io_write_unfold master_A_def rp_A_def rsp_B_def)

section \<open>Writes: the bytes transmitted\<close>

text \<open>
  C5.  A write of \<open>sz \<le> 8\<close> bytes whose response carries the request's id hands one
  buffer to \<open>rp_write\<close>: the encoded bus-access packet, of the fixed size that
  \<open>rp_encode_write\<close> returns, followed by the \<open>sz\<close> least significant bytes of the
  value, least significant first.  Its length is the encoded length plus \<open>sz\<close>, and the
  packet's length field is \<open>sz\<close>.  Scenario B (two bytes of \<open>0x1234\<close>) sends the data
  \<open>34 12\<close> with length field 2.
\<close>

theorem write_data_little_endian:
  assumes sz: "sz \<le> 8"
    and ident: "hdr_id (ba_hdr (dp_busaccess rsp)) = rp_current_id (mm_rp s)"
  shows "\<exists>s' pkt dat.
     rp_io_write s m addr v sz rsp = Inr s'
     \<and> (pkt, sizeof_rp_pkt_busaccess) =
         rp_encode_write (rp_current_id (mm_rp s)) (mm_rp_dev s)
           (vm_clock (mm_rp s) - clk_base (mm_rp s)) (addr + map_offset m) 0 sz 0 sz
     \<and> length pkt = sizeof_rp_pkt_busaccess
     \<and> be32_to_cpu (wire_busaccess_len pkt) = sz
     \<and> dat = le_bytes (unat sz) (unat v)
     \<and> le_value dat = unat v mod 256 ^ unat sz
     \<and> written (calls (mm_rp s')) = written (calls (mm_rp s)) @ [pkt @ dat]
     \<and> length (pkt @ dat) = sizeof_rp_pkt_busaccess + unat sz"
proof -
  from sz have n: "unat sz \<le> 8"
    by (simp add: word_le_nat_alt)
  show ?thesis
    using sz ident
    by (simp add: rp_io_write_unfold written_append take_pay_data [OF n] le_value_le_bytes
          rp_encode_write_def wire_busaccess_len_enc sizeof_rp_pkt_busaccess_def
          sizeof_rp_pkt_hdr_def)
qed

theorem write_data_little_endian_witness:
  "\<exists>s' pkt. rp_io_write master_A map_A 0x2000 0x1234 2 rsp_B = Inr s'
     \<and> be32_to_cpu (wire_busaccess_len pkt) = 2
     \<and> written (calls (mm_rp s')) = [pkt @ [0x34, 0x12]]
     \<and> length (pkt @ [0x34, 0x12 :: u8]) = 58"
proof -
  have le: "(2 :: u32) \<le> 8"
    by simp
  have ident: "hdr_id (ba_hdr (dp_busaccess rsp_B)) = rp_current_id (mm_rp master_A)"
    by (simp add: rsp_B_def master_A_def rp_A_def)
  have two: "unat (2 :: u32) = Suc (Suc 0)"
    by simp
  have dat: "le_bytes (unat (2 :: u32)) (unat (0x1234 :: u64)) = [0x34, 0x12]"
    unfolding two by simp
  have none: "written (calls (mm_rp master_A)) = []"
    by (simp add: master_A_def rp_A_def)
  from write_data_little_endian [OF le ident, of map_A "0x2000" "0x1234"]
  show ?thesis
    unfolding dat none by (auto simp: sizeof_rp_pkt_busaccess_def sizeof_rp_pkt_hdr_def)
qed

section \<open>Bus accesses are synchronization points\<close>

text \<open>
  C6.  When a read or a write returns, its last calls are, in this order: the wait for the
  response, the invalidation of the response buffer, the release of the mutex,
  \<open>rp_sync_vmclock\<close> with the clock sampled for the request and the timestamp of the
  response, \<open>rp_restart_sync_timer\<close>, and \<open>rp_leave_iothread\<close>; the time accounted
  since the last synchronization is zero.
\<close>

theorem bus_access_is_sync_point:
  "(rp_io_read s m addr sz rsp = Inr (v, s') \<longrightarrow>
      (\<exists>pre. calls (mm_rp s') = calls (mm_rp s) @ pre @
          [C_rp_wait_resp, C_rp_dpkt_invalidate, C_rp_rsp_mutex_unlock,
           C_rp_sync_vmclock (fst (rp_normalized_vmclk (mm_rp s)))
             (ba_timestamp (dp_busaccess rsp)),
           C_rp_restart_sync_timer, C_rp_leave_iothread])
      \<and> since_sync (mm_rp s') = 0)
   \<and> (rp_io_write s m addr w sz rsp = Inr t' \<longrightarrow>
      (\<exists>pre. calls (mm_rp t') = calls (mm_rp s) @ pre @
          [C_rp_wait_resp, C_rp_dpkt_invalidate, C_rp_rsp_mutex_unlock,
           C_rp_sync_vmclock (fst (rp_normalized_vmclk (mm_rp s)))
             (ba_timestamp (dp_busaccess rsp)),
           C_rp_restart_sync_timer, C_rp_leave_iothread])
      \<and> since_sync (mm_rp t') = 0)"
proof (intro conjI impI)
  assume rd: "rp_io_read s m addr sz rsp = Inr (v, s')"
  then show "since_sync (mm_rp s') = 0"
    by (auto simp: rp_io_read_unfold split: if_splits sum.splits)
  let ?pkt = "fst (rp_encode_read (rp_current_id (mm_rp s)) (mm_rp_dev s)
      (vm_clock (mm_rp s) - clk_base (mm_rp s)) (addr + map_offset m) 0 sz 0 sz)"
  from rd have "calls (mm_rp s') = calls (mm_rp s) @
      [C_rp_normalized_vmclk, C_rp_new_id, C_rp_encode ?pkt, C_rp_rsp_mutex_lock,
       C_rp_write ?pkt] @
      [C_rp_wait_resp, C_rp_dpkt_invalidate, C_rp_rsp_mutex_unlock,
       C_rp_sync_vmclock (fst (rp_normalized_vmclk (mm_rp s)))
         (ba_timestamp (dp_busaccess rsp)),
       C_rp_restart_sync_timer, C_rp_leave_iothread]"
    by (auto simp: rp_io_read_unfold rp_normalized_vmclk_def split: if_splits sum.splits)
  then show "\<exists>pre. calls (mm_rp s') = calls (mm_rp s) @ pre @
          [C_rp_wait_resp, C_rp_dpkt_invalidate, C_rp_rsp_mutex_unlock,
           C_rp_sync_vmclock (fst (rp_normalized_vmclk (mm_rp s)))
             (ba_timestamp (dp_busaccess rsp)),
           C_rp_restart_sync_timer, C_rp_leave_iothread]"
    by (rule exI)
next
  assume wr: "rp_io_write s m addr w sz rsp = Inr t'"
  then show "since_sync (mm_rp t') = 0"
    by (auto simp: rp_io_write_unfold split: if_splits)
  let ?pkt = "fst (rp_encode_write (rp_current_id (mm_rp s)) (mm_rp_dev s)
      (vm_clock (mm_rp s) - clk_base (mm_rp s)) (addr + map_offset m) 0 sz 0 sz)"
  from wr have "calls (mm_rp t') = calls (mm_rp s) @
      [C_rp_normalized_vmclk, C_rp_new_id, C_rp_encode ?pkt, C_rp_rsp_mutex_lock,
       C_rp_write (?pkt @ take (unat sz) (pay_data w))] @
      [C_rp_wait_resp, C_rp_dpkt_invalidate, C_rp_rsp_mutex_unlock,
       C_rp_sync_vmclock (fst (rp_normalized_vmclk (mm_rp s)))
         (ba_timestamp (dp_busaccess rsp)),
       C_rp_restart_sync_timer, C_rp_leave_iothread]"
    by (auto simp: rp_io_write_unfold rp_normalized_vmclk_def split: if_splits)
  then show "\<exists>pre. calls (mm_rp t') = calls (mm_rp s) @ pre @
          [C_rp_wait_resp, C_rp_dpkt_invalidate, C_rp_rsp_mutex_unlock,
           C_rp_sync_vmclock (fst (rp_normalized_vmclk (mm_rp s)))
             (ba_timestamp (dp_busaccess rsp)),
           C_rp_restart_sync_timer, C_rp_leave_iothread]"
    by (rule exI)
qed


theorem bus_access_is_sync_point_witness:
  "since_sync (mm_rp master_A) = 7
   \<and> since_sync (mm_rp (snd (projr (rp_io_read master_A map_A 0x1000 2 rsp_A)))) = 0
   \<and> since_sync (mm_rp (projr (rp_io_write master_A map_A 0x2000 0x1234 2 rsp_B))) = 0"
proof -
  from bus_access_is_sync_point [where s = master_A and m = map_A and addr = "0x1000"
      and sz = 2 and rsp = rsp_A and v = "0xBBAA"
      and s' = "snd (projr (rp_io_read master_A map_A 0x1000 2 rsp_A))"] read_A2_result
  have a: "since_sync (mm_rp (snd (projr (rp_io_read master_A map_A 0x1000 2 rsp_A)))) = 0"
    by blast
  from bus_access_is_sync_point [where s = master_A and m = map_A and addr = "0x2000"
      and sz = 2 and rsp = rsp_B and w = "0x1234"
      and t' = "projr (rp_io_write master_A map_A 0x2000 0x1234 2 rsp_B)"] write_B_result
  have b: "since_sync (mm_rp (projr (rp_io_write master_A map_A 0x2000 0x1234 2 rsp_B))) = 0"
    by blast
  have c: "since_sync (mm_rp master_A) = 7"
    by (simp add: master_A_def rp_A_def)
  from a b c show ?thesis
    by blast
qed


section \<open>The region covered by the response mutex\<close>

text \<open>
  C3.  The claim: the mutex is taken before the request is encoded and released only after
  the clock has been reconciled.  In scenario A the request is encoded (call 2) before the
  mutex is taken (call 3), and \<open>rp_sync_vmclock\<close> (call 8) comes after the release
  (call 7): the claimed discipline does not hold of the calls made.
\<close>

theorem mutex_held_for_cycle_counterexample:
  "\<not> mutex_held_for_cycle
       (calls (mm_rp (snd (projr (rp_io_read master_A map_A 0x1000 4 rsp_A)))))"
proof
  let ?cs = "calls (mm_rp (snd (projr (rp_io_read master_A map_A 0x1000 4 rsp_A))))"
  assume "mutex_held_for_cycle ?cs"
  then have "in_send_wait_cycle (?cs ! 2) \<longrightarrow> under_mutex ?cs 2"
    by (simp add: mutex_held_for_cycle_def read_A_calls)
  then show False
    by (simp add: read_A_calls under_mutex_def rsp_mutex_held_def mutex_after_def)
qed

text \<open>
  C3, as the code has it.  A read or write that returns has made exactly these calls: the
  clock sample, the id, and the encoding of the request without the mutex; then the lock;
  the send, the wait for the response, the invalidation of its buffer and the unlock with
  the mutex held; and the clock reconciliation, the restart of the sync timer and the
  return to the caller after the release.
\<close>

theorem mutex_region_of_bus_access:
  "(rp_io_read s m addr sz rsp = Inr (v, s') \<longrightarrow>
      (\<exists>pkt clk rclk. calls_since (mm_rp s) (mm_rp s') =
         [C_rp_normalized_vmclk, C_rp_new_id, C_rp_encode pkt, C_rp_rsp_mutex_lock,
          C_rp_write pkt, C_rp_wait_resp, C_rp_dpkt_invalidate, C_rp_rsp_mutex_unlock,
          C_rp_sync_vmclock clk rclk, C_rp_restart_sync_timer, C_rp_leave_iothread])
      \<and> map (under_mutex (calls_since (mm_rp s) (mm_rp s'))) [0, 1, 2, 3, 4, 5, 6, 7, 8, 9, 10] =
          [False, False, False, False, True, True, True, True, False, False, False])
   \<and> (rp_io_write s m addr w sz rsp = Inr t' \<longrightarrow>
      (\<exists>pkt dat clk rclk. calls_since (mm_rp s) (mm_rp t') =
         [C_rp_normalized_vmclk, C_rp_new_id, C_rp_encode pkt, C_rp_rsp_mutex_lock,
          C_rp_write (pkt @ dat), C_rp_wait_resp, C_rp_dpkt_invalidate, C_rp_rsp_mutex_unlock,
          C_rp_sync_vmclock clk rclk, C_rp_restart_sync_timer, C_rp_leave_iothread])
      \<and> map (under_mutex (calls_since (mm_rp s) (mm_rp t'))) [0, 1, 2, 3, 4, 5, 6, 7, 8, 9, 10] =
          [False, False, False, False, True, True, True, True, False, False, False])"
proof (intro conjI impI)
  assume rd: "rp_io_read s m addr sz rsp = Inr (v, s')"
  then obtain pkt clk rclk where cs: "calls_since (mm_rp s) (mm_rp s') =
         [C_rp_normalized_vmclk, C_rp_new_id, C_rp_encode pkt, C_rp_rsp_mutex_lock,
          C_rp_write pkt, C_rp_wait_resp, C_rp_dpkt_invalidate, C_rp_rsp_mutex_unlock,
          C_rp_sync_vmclock clk rclk, C_rp_restart_sync_timer, C_rp_leave_iothread]"
    by (auto simp: rp_io_read_unfold calls_since_def split: if_splits sum.splits)
  then show "\<exists>pkt clk rclk. calls_since (mm_rp s) (mm_rp s') =
         [C_rp_normalized_vmclk, C_rp_new_id, C_rp_encode pkt, C_rp_rsp_mutex_lock,
          C_rp_write pkt, C_rp_wait_resp, C_rp_dpkt_invalidate, C_rp_rsp_mutex_unlock,
          C_rp_sync_vmclock clk rclk, C_rp_restart_sync_timer, C_rp_leave_iothread]"
    by blast
  show "map (under_mutex (calls_since (mm_rp s) (mm_rp s'))) [0, 1, 2, 3, 4, 5, 6, 7, 8, 9, 10] =
          [False, False, False, False, True, True, True, True, False, False, False]"
    unfolding cs by (rule under_mutex_bus_access)
next
  assume wr: "rp_io_write s m addr w sz rsp = Inr t'"
  then obtain pkt dat clk rclk where cs: "calls_since (mm_rp s) (mm_rp t') =
         [C_rp_normalized_vmclk, C_rp_new_id, C_rp_encode pkt, C_rp_rsp_mutex_lock,
          C_rp_write (pkt @ dat), C_rp_wait_resp, C_rp_dpkt_invalidate, C_rp_rsp_mutex_unlock,
          C_rp_sync_vmclock clk rclk, C_rp_restart_sync_timer, C_rp_leave_iothread]"
    by (auto simp: rp_io_write_unfold calls_since_def split: if_splits)
  then show "\<exists>pkt dat clk rclk. calls_since (mm_rp s) (mm_rp t') =
         [C_rp_normalized_vmclk, C_rp_new_id, C_rp_encode pkt, C_rp_rsp_mutex_lock,
          C_rp_write (pkt @ dat), C_rp_wait_resp, C_rp_dpkt_invalidate, C_rp_rsp_mutex_unlock,
          C_rp_sync_vmclock clk rclk, C_rp_restart_sync_timer, C_rp_leave_iothread]"
    by blast
  show "map (under_mutex (calls_since (mm_rp s) (mm_rp t'))) [0, 1, 2, 3, 4, 5, 6, 7, 8, 9, 10] =
          [False, False, False, False, True, True, True, True, False, False, False]"
    unfolding cs by (rule under_mutex_bus_access)
qed

theorem mutex_region_of_bus_access_witness:
  "map (under_mutex (calls_since (mm_rp master_A)
          (mm_rp (snd (projr (rp_io_read master_A map_A 0x1000 2 rsp_A))))))
     [0, 1, 2, 3, 4, 5, 6, 7, 8, 9, 10] =
   [False, False, False, False, True, True, True, True, False, False, False]
   \<and> map (under_mutex (calls_since (mm_rp master_A)
          (mm_rp (projr (rp_io_write master_A map_A 0x2000 0x1234 2 rsp_B)))))
     [0, 1, 2, 3, 4, 5, 6, 7, 8, 9, 10] =
   [False, False, False, False, True, True, True, True, False, False, False]"
  using mutex_region_of_bus_access [where s = master_A and m = map_A and addr = "0x1000"
      and sz = 2 and rsp = rsp_A and v = "0xBBAA"
      and s' = "snd (projr (rp_io_read master_A map_A 0x1000 2 rsp_A))"
      and t' = "projr (rp_io_write master_A map_A 0x2000 0x1234 2 rsp_B)"]
    mutex_region_of_bus_access [where s = master_A and m = map_A and addr = "0x2000"
      and sz = 2 and rsp = rsp_B and w = "0x1234"
      and t' = "projr (rp_io_write master_A map_A 0x2000 0x1234 2 rsp_B)"]
    read_A2_result write_B_result
  by blast


section \<open>The GPIO device\<close>

lemma ucast_succ_neq: "(ucast (x + 1 :: u64) :: u32) \<noteq> ucast x"
proof
  assume "(ucast (x + 1) :: u32) = ucast x"
  then have "bit (ucast (x + 1) :: u32) 0 = bit (ucast x :: u32) 0"
    by simp
  then have "bit (x + 1) 0 = bit x 0"
    unfolding bit_ucast_iff by simp
  then show False
    by (simp add: bit_0)
qed

lemma length_rp_encode_interrupt:
  "length (fst (rp_encode_interrupt i d clk line vec val)) = sizeof_rp_pkt_interrupt"
  by (simp add: rp_encode_interrupt_def sizeof_rp_pkt_interrupt_def sizeof_rp_pkt_hdr_def)

lemma rp_gpio_handler_unfold:
  "rp_gpio_handler s irq level =
     s\<lparr>current_id := current_id s + 1,
       gpio_rp := (gpio_rp s)\<lparr>calls := calls (gpio_rp s) @
         [C_rp_normalized_vmclk,
          C_rp_encode (fst (rp_encode_interrupt (ucast (current_id s)) (gpio_rp_dev s)
             (vm_clock (gpio_rp s) - clk_base (gpio_rp s)) irq 0 (ucast level))),
          C_rp_write (fst (rp_encode_interrupt (ucast (current_id s)) (gpio_rp_dev s)
             (vm_clock (gpio_rp s) - clk_base (gpio_rp s)) irq 0 (ucast level)))]\<rparr>\<rparr>"
  by (simp add: rp_gpio_handler_def rp_core_defs Let_def split_def
        length_rp_encode_interrupt [simplified]
        rp_encode_interrupt_def sizeof_rp_pkt_interrupt_def sizeof_rp_pkt_hdr_def)

text \<open>
  C7.  One call of \<open>rp_gpio_handler\<close> samples the clock, encodes one interrupt packet
  and hands exactly that packet to \<open>rp_write\<close>; it makes no other call, so it neither
  waits for a response, nor consumes one, nor touches the response mutex, and it takes no
  response as input.  The packet carries the low 32 bits of the device's id counter, the
  counter is advanced, and the next packet carries another id.
\<close>

theorem interrupt_is_fire_and_forget:
  "(let s' = rp_gpio_handler s irq level;
        cs = calls_since (gpio_rp s) (gpio_rp s');
        pkt = fst (rp_encode_interrupt (ucast (current_id s)) (gpio_rp_dev s)
                 (fst (rp_normalized_vmclk (gpio_rp s))) irq 0 (ucast level))
    in cs = [C_rp_normalized_vmclk, C_rp_encode pkt, C_rp_write pkt]
       \<and> written cs = [pkt]
       \<and> length pkt = sizeof_rp_pkt_interrupt
       \<and> be32_to_cpu (wire_hdr_id pkt) = ucast (current_id s)
       \<and> current_id s' = current_id s + 1
       \<and> (ucast (current_id s') :: u32) \<noteq> ucast (current_id s)
       \<and> C_rp_wait_resp \<notin> set cs
       \<and> C_rp_rsp_mutex_lock \<notin> set cs
       \<and> C_rp_dpkt_invalidate \<notin> set cs
       \<and> map (under_mutex cs) [0, 1, 2] = [False, False, False])"
  by (simp add: rp_gpio_handler_unfold Let_def rp_normalized_vmclk_def ucast_succ_neq
        length_rp_encode_interrupt under_mutex_def rsp_mutex_held_def mutex_after_def)
    (simp add: rp_encode_interrupt_def wire_hdr_id_hdr)

text \<open>
  C10.  Realizing the device creates \<open>num_gpios\<close> output lines.  \<open>rp_gpio_interrupt\<close>
  uses the packet's line as the index with no check: with \<open>line < num_gpios\<close> it sets
  that line to the packet's value and leaves every other line and every other field as
  they were; otherwise the access is outside the array and has no defined result.
\<close>

theorem gpio_interrupt_sets_line:
  "length (gpio_out (rp_gpio_realize s)) = unat (num_gpios s)
   \<and> num_gpios (rp_gpio_realize s) = num_gpios s
   \<and> (length (gpio_out rpg) = unat (num_gpios rpg) \<longrightarrow>
        (unat (irq_line pkt) < unat (num_gpios rpg) \<longrightarrow>
           (\<exists>rpg'. rp_gpio_interrupt rpg pkt = Inr rpg'
              \<and> gpio_out rpg' ! unat (irq_line pkt) = ucast (irq_val pkt)
              \<and> length (gpio_out rpg') = length (gpio_out rpg)
              \<and> (\<forall>j < length (gpio_out rpg). j \<noteq> unat (irq_line pkt) \<longrightarrow>
                    gpio_out rpg' ! j = gpio_out rpg ! j)
              \<and> rpg' = rpg\<lparr>gpio_out := gpio_out rpg'\<rparr>))
        \<and> (\<not> unat (irq_line pkt) < unat (num_gpios rpg) \<longrightarrow>
             rp_gpio_interrupt rpg pkt = Inl Index_out_of_range))"
  by (simp add: rp_gpio_realize_def rp_gpio_interrupt_def qemu_set_irq_def)

theorem gpio_interrupt_sets_line_witness:
  "\<exists>rpg'. rp_gpio_interrupt gpio_A irq_A = Inr rpg'
      \<and> gpio_out rpg' ! 3 = 1 \<and> gpio_out rpg' ! 2 = 0 \<and> length (gpio_out rpg') = 16"
proof -
  have len: "length (gpio_out gpio_A) = unat (num_gpios gpio_A)"
    by (simp add: gpio_A_def rp_gpio_realize_def)
  have line: "unat (irq_line irq_A) < unat (num_gpios gpio_A)"
    by (simp add: gpio_A_def irq_A_def rp_gpio_realize_def)
  have l3: "unat (irq_line irq_A) = 3" and v: "(ucast (irq_val irq_A) :: int32) = 1"
    by (simp_all add: irq_A_def)
  have n: "length (gpio_out gpio_A) = 16" and two: "gpio_out gpio_A ! 2 = 0"
    by (simp_all add: gpio_A_def rp_gpio_realize_def)
  from gpio_interrupt_sets_line [of gpio_A gpio_A irq_A] len line
  obtain rpg' where r: "rp_gpio_interrupt gpio_A irq_A = Inr rpg'"
      "gpio_out rpg' ! unat (irq_line irq_A) = ucast (irq_val irq_A)"
      "length (gpio_out rpg') = length (gpio_out gpio_A)"
      "\<forall>j < length (gpio_out gpio_A). j \<noteq> unat (irq_line irq_A) \<longrightarrow>
                    gpio_out rpg' ! j = gpio_out gpio_A ! j"
    by blast
  from r(4) have "gpio_out rpg' ! 2 = gpio_out gpio_A ! 2"
    unfolding l3 n by simp
  with r show ?thesis
    unfolding l3 v n two by blast
qed


section \<open>The memory slave\<close>

lemma length_dma_memory_read [simp]: "length (dma_memory_read mem a n) = n"
  by (simp add: dma_memory_read_def)

lemma rp_cmd_rw_unfold:
  "rp_cmd_rw s pkt dir =
     (if ba_width (dp_busaccess pkt) \<noteq> 0 then Inl Assert_width
      else if ba_stream_width (dp_busaccess pkt) \<noteq> ba_len (dp_busaccess pkt)
        then Inl Assert_stream_width
      else if hdr_flags (ba_hdr (dp_busaccess pkt)) AND RP_PKT_FLAGS_response \<noteq> 0
        then Inl Assert_not_response
      else case dir of
        DMA_DIRECTION_TO_DEVICE \<Rightarrow>
          Inr (s\<lparr>ms_rp := (ms_rp s)\<lparr>calls := calls (ms_rp s) @
            [C_rp_encode (fst (rp_encode_read_resp (hdr_id (ba_hdr (dp_busaccess pkt)))
                (hdr_dev (ba_hdr (dp_busaccess pkt))) (ba_timestamp (dp_busaccess pkt))
                (ba_addr (dp_busaccess pkt)) (ucast (ba_attributes (dp_busaccess pkt)))
                (ba_len (dp_busaccess pkt)) (ba_width (dp_busaccess pkt))
                (ba_stream_width (dp_busaccess pkt)))),
             C_rp_write (fst (rp_encode_read_resp (hdr_id (ba_hdr (dp_busaccess pkt)))
                (hdr_dev (ba_hdr (dp_busaccess pkt))) (ba_timestamp (dp_busaccess pkt))
                (ba_addr (dp_busaccess pkt)) (ucast (ba_attributes (dp_busaccess pkt)))
                (ba_len (dp_busaccess pkt)) (ba_width (dp_busaccess pkt))
                (ba_stream_width (dp_busaccess pkt)))
               @ dma_memory_read (ms_as s) (ba_addr (dp_busaccess pkt))
                   (unat (ba_len (dp_busaccess pkt))))]\<rparr>\<rparr>)
      | DMA_DIRECTION_FROM_DEVICE \<Rightarrow>
          if length (dp_data pkt) < unat (ba_len (dp_busaccess pkt)) then Inl Read_past_data
          else Inr (s\<lparr>ms_rp := (ms_rp s)\<lparr>calls := calls (ms_rp s) @
            [C_rp_encode (fst (rp_encode_write_resp (hdr_id (ba_hdr (dp_busaccess pkt)))
                (hdr_dev (ba_hdr (dp_busaccess pkt))) (ba_timestamp (dp_busaccess pkt))
                (ba_addr (dp_busaccess pkt)) (ucast (ba_attributes (dp_busaccess pkt)))
                (ba_len (dp_busaccess pkt)) (ba_width (dp_busaccess pkt))
                (ba_stream_width (dp_busaccess pkt)))),
             C_rp_write (fst (rp_encode_write_resp (hdr_id (ba_hdr (dp_busaccess pkt)))
                (hdr_dev (ba_hdr (dp_busaccess pkt))) (ba_timestamp (dp_busaccess pkt))
                (ba_addr (dp_busaccess pkt)) (ucast (ba_attributes (dp_busaccess pkt)))
                (ba_len (dp_busaccess pkt)) (ba_width (dp_busaccess pkt))
                (ba_stream_width (dp_busaccess pkt))))]\<rparr>,
              ms_as := dma_memory_write (ms_as s) (ba_addr (dp_busaccess pkt))
                         (take (unat (ba_len (dp_busaccess pkt))) (dp_data pkt))\<rparr>))"
  by (cases dir)
    (simp_all add: rp_cmd_rw_def Let_def rp_write_def called_def rp_encode_read_resp_def
      rp_encode_write_resp_def sizeof_rp_pkt_busaccess_def sizeof_rp_pkt_hdr_def)


lemma response_flag_bit: "(f AND RP_PKT_FLAGS_response \<noteq> 0) = bit (f :: u32) 1"
  using and_exp_eq_0_iff_not_bit [of f 1] by (simp add: RP_PKT_FLAGS_response_def)



text \<open>
  C9.  \<open>rp_cmd_rw\<close> asserts, in this order, a zero beat width, a stream width equal to
  the length, and a clear response flag (bit 1 of the header flags), before it touches
  memory or the transport: a packet that breaks one of them stops at that assertion.  For
  a packet that meets all three no assertion fails, the one on the encoded length
  included, and the request is served (a write, provided its data bytes are there).
\<close>

theorem slave_precondition:
  "(ba_width (dp_busaccess pkt) \<noteq> 0 \<longrightarrow> rp_cmd_rw s pkt dir = Inl Assert_width)
   \<and> (ba_width (dp_busaccess pkt) = 0
        \<and> ba_stream_width (dp_busaccess pkt) \<noteq> ba_len (dp_busaccess pkt) \<longrightarrow>
        rp_cmd_rw s pkt dir = Inl Assert_stream_width)
   \<and> (ba_width (dp_busaccess pkt) = 0
        \<and> ba_stream_width (dp_busaccess pkt) = ba_len (dp_busaccess pkt)
        \<and> bit (hdr_flags (ba_hdr (dp_busaccess pkt))) 1 \<longrightarrow>
        rp_cmd_rw s pkt dir = Inl Assert_not_response)
   \<and> (ba_width (dp_busaccess pkt) = 0
        \<and> ba_stream_width (dp_busaccess pkt) = ba_len (dp_busaccess pkt)
        \<and> \<not> bit (hdr_flags (ba_hdr (dp_busaccess pkt))) 1 \<longrightarrow>
        rp_cmd_rw s pkt dir \<noteq> Inl Assert_width
        \<and> rp_cmd_rw s pkt dir \<noteq> Inl Assert_stream_width
        \<and> rp_cmd_rw s pkt dir \<noteq> Inl Assert_not_response
        \<and> rp_cmd_rw s pkt dir \<noteq> Inl Assert_enclen
        \<and> (dir = DMA_DIRECTION_TO_DEVICE
             \<or> unat (ba_len (dp_busaccess pkt)) \<le> length (dp_data pkt) \<longrightarrow>
             \<not> isl (rp_cmd_rw s pkt dir)))"
  by (cases dir) (simp_all add: rp_cmd_rw_unfold response_flag_bit)

theorem slave_precondition_witness:
  "rp_cmd_rw slave_A (req_read\<lparr>dp_busaccess := (dp_busaccess req_read)\<lparr>ba_width := 4\<rparr>\<rparr>)
       DMA_DIRECTION_TO_DEVICE = Inl Assert_width
   \<and> rp_cmd_rw slave_A (req_read\<lparr>dp_busaccess := (dp_busaccess req_read)\<lparr>ba_stream_width := 2\<rparr>\<rparr>)
       DMA_DIRECTION_TO_DEVICE = Inl Assert_stream_width
   \<and> rp_cmd_rw slave_A rsp_A DMA_DIRECTION_TO_DEVICE = Inl Assert_not_response
   \<and> \<not> isl (rp_cmd_rw slave_A req_read DMA_DIRECTION_TO_DEVICE)
   \<and> \<not> isl (rp_cmd_rw slave_A req_write DMA_DIRECTION_FROM_DEVICE)"
proof -
  let ?wide = "req_read\<lparr>dp_busaccess := (dp_busaccess req_read)\<lparr>ba_width := 4\<rparr>\<rparr>"
  let ?stream = "req_read\<lparr>dp_busaccess := (dp_busaccess req_read)\<lparr>ba_stream_width := 2\<rparr>\<rparr>"
  have w: "ba_width (dp_busaccess ?wide) \<noteq> 0"
    by (simp add: req_read_def)
  have st: "ba_width (dp_busaccess ?stream) = 0
      \<and> ba_stream_width (dp_busaccess ?stream) \<noteq> ba_len (dp_busaccess ?stream)"
    by (simp add: req_read_def)
  have rs: "ba_width (dp_busaccess rsp_A) = 0
      \<and> ba_stream_width (dp_busaccess rsp_A) = ba_len (dp_busaccess rsp_A)
      \<and> bit (hdr_flags (ba_hdr (dp_busaccess rsp_A))) 1"
    by (simp add: rsp_A_def bit_iff_odd)
  have ok_r: "ba_width (dp_busaccess req_read) = 0
      \<and> ba_stream_width (dp_busaccess req_read) = ba_len (dp_busaccess req_read)
      \<and> \<not> bit (hdr_flags (ba_hdr (dp_busaccess req_read))) 1"
    by (simp add: req_read_def)
  have ok_w: "ba_width (dp_busaccess req_write) = 0
      \<and> ba_stream_width (dp_busaccess req_write) = ba_len (dp_busaccess req_write)
      \<and> \<not> bit (hdr_flags (ba_hdr (dp_busaccess req_write))) 1"
    by (simp add: req_write_def)
  have dat: "unat (ba_len (dp_busaccess req_write)) \<le> length (dp_data req_write)"
    by (simp add: req_write_def)
  from slave_precondition [of ?wide slave_A DMA_DIRECTION_TO_DEVICE] w
  have a: "rp_cmd_rw slave_A ?wide DMA_DIRECTION_TO_DEVICE = Inl Assert_width"
    by blast
  from slave_precondition [of ?stream slave_A DMA_DIRECTION_TO_DEVICE] st
  have b: "rp_cmd_rw slave_A ?stream DMA_DIRECTION_TO_DEVICE = Inl Assert_stream_width"
    by blast
  from slave_precondition [of rsp_A slave_A DMA_DIRECTION_TO_DEVICE] rs
  have c: "rp_cmd_rw slave_A rsp_A DMA_DIRECTION_TO_DEVICE = Inl Assert_not_response"
    by blast
  from slave_precondition [of req_read slave_A DMA_DIRECTION_TO_DEVICE] ok_r
  have d: "\<not> isl (rp_cmd_rw slave_A req_read DMA_DIRECTION_TO_DEVICE)"
    by blast
  from slave_precondition [of req_write slave_A DMA_DIRECTION_FROM_DEVICE] ok_w dat
  have e: "\<not> isl (rp_cmd_rw slave_A req_write DMA_DIRECTION_FROM_DEVICE)"
    by blast
  from a b c d e show ?thesis
    by blast
qed




section \<open>The tracked peer clock\<close>













end
